theory Spec2Isabelle
  imports Main "HOL-Library.Multiset"
begin

section \<open>The notebook's configuration cell (cell id env-setup)\<close>

text \<open>
  The cell reads four environment variables with \<^verbatim>\<open>os.environ.get\<close>, raises
  \<^verbatim>\<open>ValueError\<close> when \<^verbatim>\<open>None in [openai_key, anthropic_key, perplexity_key, groq_key]\<close>,
  binds one \<^verbatim>\<open>dspy.LM\<close> per truthy key and ends with
  \<^verbatim>\<open>dspy.configure(lm=openai_lm)\<close>.

  Python values the cell handles: \<^verbatim>\<open>None\<close>, a \<^verbatim>\<open>str\<close>, and the object
  \<^verbatim>\<open>dspy.LM(model, api_key=key)\<close>, which is kept as the pair of its arguments (the
  constructor of the external framework only stores them).
\<close>

datatype pyval = PyNone | PyStr string | LM string pyval

datatype exn = ValueError string | NameError string

text \<open>
  The state a cell runs in: the kernel's global names (a name that was never assigned is
  absent, and reading it raises \<^verbatim>\<open>NameError\<close>) and the model that
  \<^verbatim>\<open>dspy.configure\<close> stored in the framework's settings.
\<close>

record kernel =
  globals :: "string \<rightharpoonup> pyval"
  settings_lm :: "pyval option"

text \<open>A statement either completes or raises; the names bound so far stay bound.\<close>

datatype outcome = Completed kernel | Raised exn kernel

type_synonym stmt = "kernel \<Rightarrow> outcome"

fun run :: "stmt list \<Rightarrow> kernel \<Rightarrow> outcome" where
  "run [] k = Completed k"
| "run (s # ss) k = (case s k of Completed k' \<Rightarrow> run ss k' | Raised e k' \<Rightarrow> Raised e k')"

fun exn_of :: "outcome \<Rightarrow> exn option" where
  "exn_of (Completed k) = None"
| "exn_of (Raised e k) = Some e"

fun kernel_of :: "outcome \<Rightarrow> kernel" where
  "kernel_of (Completed k) = k"
| "kernel_of (Raised e k) = k"

text \<open>Truth value of an object, as \<^verbatim>\<open>if openai_key:\<close> tests it.\<close>

fun truthy :: "pyval \<Rightarrow> bool" where
  "truthy PyNone = False"
| "truthy (PyStr s) = (s \<noteq> [])"
| "truthy (LM m key) = True"

text \<open>\<^verbatim>\<open>x = v\<close>\<close>

definition assign :: "string \<Rightarrow> pyval \<Rightarrow> stmt" where
  "assign x v k = Completed (k\<lparr>globals := (globals k)(x \<mapsto> v)\<rparr>)"

text \<open>\<^verbatim>\<open>os.environ.get(name)\<close>: the variable's value, or \<^verbatim>\<open>None\<close> when it is unset.\<close>

definition environ_get :: "(string \<rightharpoonup> string) \<Rightarrow> string \<Rightarrow> pyval" where
  "environ_get environ name = (case environ name of None \<Rightarrow> PyNone | Some v \<Rightarrow> PyStr v)"

text \<open>The list display \<^verbatim>\<open>[a, b, c, d]\<close>: each name is read in turn.\<close>

fun load_names :: "string list \<Rightarrow> kernel \<Rightarrow> exn + pyval list" where
  "load_names [] k = Inr []"
| "load_names (x # xs) k =
     (case globals k x of
        None \<Rightarrow> Inl (NameError x)
      | Some v \<Rightarrow> (case load_names xs k of Inl e \<Rightarrow> Inl e | Inr vs \<Rightarrow> Inr (v # vs)))"

text \<open>
  \<^verbatim>\<open>if None in [...]: raise ValueError('No supported API key found in environment variables.')\<close>
\<close>

definition check_keys :: "string list \<Rightarrow> stmt" where
  "check_keys xs k =
     (case load_names xs k of
        Inl e \<Rightarrow> Raised e k
      | Inr vs \<Rightarrow>
          if PyNone \<in> set vs
          then Raised (ValueError ''No supported API key found in environment variables.'') k
          else Completed k)"

text \<open>\<^verbatim>\<open>if key: x_lm = dspy.LM(model, api_key=key)\<close>\<close>

definition bind_lm :: "string \<Rightarrow> string \<Rightarrow> string \<Rightarrow> stmt" where
  "bind_lm key_var lm_var model k =
     (case globals k key_var of
        None \<Rightarrow> Raised (NameError key_var) k
      | Some key \<Rightarrow> if truthy key then assign lm_var (LM model key) k else Completed k)"

text \<open>\<^verbatim>\<open>dspy.configure(lm=x_lm)\<close>\<close>

definition configure :: "string \<Rightarrow> stmt" where
  "configure lm_var k =
     (case globals k lm_var of
        None \<Rightarrow> Raised (NameError lm_var) k
      | Some v \<Rightarrow> Completed (k\<lparr>settings_lm := Some v\<rparr>))"

definition env_setup :: "(string \<rightharpoonup> string) \<Rightarrow> stmt" where
  "env_setup environ =
     run
      [assign ''lm'' PyNone,
       assign ''openai_key'' (environ_get environ ''OPENAI_API_KEY''),
       assign ''anthropic_key'' (environ_get environ ''ANTHROPIC_API_KEY''),
       assign ''perplexity_key'' (environ_get environ ''PERPLEXITY_API_KEY''),
       assign ''groq_key'' (environ_get environ ''GROQ_API_KEY''),
       check_keys [''openai_key'', ''anthropic_key'', ''perplexity_key'', ''groq_key''],
       bind_lm ''openai_key'' ''openai_lm'' ''openai/gpt-4o-mini'',
       bind_lm ''anthropic_key'' ''anthropic_lm'' ''anthropic/claude-opus-4-20250514'',
       bind_lm ''perplexity_key'' ''perplexity_lm'' ''perplexity/sonar'',
       bind_lm ''groq_key'' ''groq_lm'' ''groq/llama-3.1-8b-instant'',
       configure ''openai_lm'']"

text \<open>A kernel that has run no cell yet: the configuration cell is the notebook's first.\<close>

definition fresh :: kernel where
  "fresh = \<lparr>globals = Map.empty, settings_lm = None\<rparr>"

text \<open>The names of the four environment variables, in the order the cell reads them.\<close>

definition supported_keys :: "string list" where
  "supported_keys = [''OPENAI_API_KEY'', ''ANTHROPIC_API_KEY'', ''PERPLEXITY_API_KEY'', ''GROQ_API_KEY'']"


section \<open>The multi-stage pipeline cell (DraftArticle)\<close>

text \<open>
  \<^verbatim>\<open>Outline\<close> and \<^verbatim>\<open>DraftSection\<close> are signatures of the external framework;
  \<^verbatim>\<open>dspy.ChainOfThought\<close> of a signature returns a prediction with the signature's
  output fields and a \<^verbatim>\<open>reasoning\<close> field. The mapping
  \<^verbatim>\<open>section_subheadings\<close> is a Python dict, kept as the list of its items in
  iteration order.
\<close>

record outline =
  reasoning :: string
  title :: string
  sections :: "string list"
  section_subheadings :: "(string \<times> string list) list"

record drafted_section =
  section_reasoning :: string
  content :: string

text \<open>\<^verbatim>\<open>dspy.Prediction(title=..., sections=...)\<close>\<close>

datatype prediction = Prediction (pred_title: string) (pred_sections: "string list")

text \<open>
  The two sub-modules call the language model: each call may raise (an error of some type
  \<open>'e\<close> of the framework) and may change the state \<open>'w\<close> of whatever answers
  (history, cache, the remote service). They are parameters of the model, with the
  keyword arguments of the source in the source's order.
\<close>

type_synonym ('e, 'w) build_outline = "string \<Rightarrow> 'w \<Rightarrow> ('e + outline) \<times> 'w"

type_synonym ('e, 'w) draft_section =
  "string \<Rightarrow> string \<Rightarrow> string list \<Rightarrow> 'w \<Rightarrow> ('e + drafted_section) \<times> 'w"

text \<open>
  The \<^verbatim>\<open>for heading, subheadings in outline.section_subheadings.items()\<close> loop of
  \<^verbatim>\<open>forward\<close>; \<open>sections_acc\<close> is the list \<^verbatim>\<open>sections\<close> built so far and
  \<open>topic\<close> is the keyword argument \<^verbatim>\<open>topic=outline.title\<close>.
\<close>

fun forward_loop ::
  "('e, 'w) draft_section \<Rightarrow> string \<Rightarrow> (string \<times> string list) list \<Rightarrow> string list \<Rightarrow> 'w
     \<Rightarrow> ('e + string list) \<times> 'w" where
  "forward_loop draft_section topic [] sections_acc w = (Inr sections_acc, w)"
| "forward_loop draft_section topic ((heading, subheadings) # items) sections_acc w =
     (let section = ''## '' @ heading;
          subheadings = map (\<lambda>subheading. ''### '' @ subheading) subheadings
      in case draft_section topic section subheadings w of
           (Inl e, w') \<Rightarrow> (Inl e, w')
         | (Inr section, w') \<Rightarrow>
             forward_loop draft_section topic items (sections_acc @ [content section]) w')"

definition forward ::
  "('e, 'w) build_outline \<Rightarrow> ('e, 'w) draft_section \<Rightarrow> string \<Rightarrow> 'w \<Rightarrow> ('e + prediction) \<times> 'w" where
  "forward build_outline draft_section topic w =
     (case build_outline topic w of
        (Inl e, w1) \<Rightarrow> (Inl e, w1)
      | (Inr outline, w1) \<Rightarrow>
          (case forward_loop draft_section (title outline) (section_subheadings outline) [] w1 of
             (Inl e, w2) \<Rightarrow> (Inl e, w2)
           | (Inr sections_acc, w2) \<Rightarrow> (Inr (Prediction (title outline) sections_acc), w2)))"

text \<open>
  What the property of \<^verbatim>\<open>forward\<close> speaks of: the calls an outline asks for, one per
  entry of the mapping in iteration order, as (topic, section heading, subheadings)
  with the markdown prefixes, and the answers of \<open>draft_section\<close> to a list of calls made
  one after the other.
\<close>

definition expected_calls :: "outline \<Rightarrow> (string \<times> string \<times> string list) list" where
  "expected_calls outline =
     map (\<lambda>(heading, subheadings).
            (title outline, ''## '' @ heading, map ((@) ''### '') subheadings))
         (section_subheadings outline)"

fun answer_calls ::
  "('e, 'w) draft_section \<Rightarrow> (string \<times> string \<times> string list) list \<Rightarrow> 'w
     \<Rightarrow> ('e + drafted_section list) \<times> 'w" where
  "answer_calls draft_section [] w = (Inr [], w)"
| "answer_calls draft_section ((topic, section_heading, subheadings) # calls) w =
     (case draft_section topic section_heading subheadings w of
        (Inl e, w') \<Rightarrow> (Inl e, w')
      | (Inr d, w') \<Rightarrow>
          (case answer_calls draft_section calls w' of
             (Inl e, w'') \<Rightarrow> (Inl e, w'')
           | (Inr ds, w'') \<Rightarrow> (Inr (d # ds), w'')))"

text \<open>
  A framework that records what it is asked: the state is the list of the calls
  \<open>draft_section\<close> has received, and a drafted section's content is the heading it was
  given.
\<close>

definition recorded_outline :: outline where
  "recorded_outline =
     \<lparr>reasoning = ''r'', title = ''Quantum'', sections = [''Intro'', ''Outlook''],
      section_subheadings =
        [(''Intro'', [''Basics'']), (''Outlook'', [''Short-term'', ''Long-term''])]\<rparr>"

definition recording_build_outline ::
  "(unit, (string \<times> string \<times> string list) list) build_outline" where
  "recording_build_outline topic w = (Inr recorded_outline, w)"

definition recording_draft_section ::
  "(unit, (string \<times> string \<times> string list) list) draft_section" where
  "recording_draft_section topic section_heading subheadings w =
     (Inr \<lparr>section_reasoning = [], content = section_heading\<rparr>,
      w @ [(topic, section_heading, subheadings)])"


section \<open>The summarizer pipeline's driver\<close>

text \<open>
  The README lists \<^verbatim>\<open>ai_news_summarizer.py\<close> as a file of the repository; it is not
  among the sources at hand, so the definitions of this section follow the specification
  (sections 3, 4.1, 4.6 and 5). The stages the driver calls (Feed Fetcher, Content
  Extractor with Summarizer, executive Summarizer, Report Renderer) are parameters.
\<close>

text \<open>
  Modelled from the spec: the SourceConfig entity of section 3 (the registry table of
  \<^verbatim>\<open>ai_news_summarizer.py\<close> is missing); the tag set is kept as a list.
\<close>

record source_config =
  source_id :: string
  display_name :: string
  description :: string
  rss_url :: string
  base_url :: string
  enabled :: bool
  tags :: "string list"
  max_articles_per_source :: nat

text \<open>
  Modelled from the spec: the ArticleStub entity of section 3 (missing: the script's own
  class): title, link, optional published timestamp, source identifier.
\<close>

record article_stub =
  stub_title :: string
  stub_link :: string
  stub_published :: "string option"
  stub_source :: string

text \<open>
  Modelled from the spec: the ArticleSummary entity of section 3 (missing: the script's
  own class): article metadata and the generated summary string.
\<close>

record article_summary =
  article_title :: string
  article_link :: string
  article_source :: string
  article_published :: "string option"
  summary :: string

text \<open>
  Modelled from the spec: the RunResult entity of section 3 (missing: the script's own
  class): the ordered article summaries, one executive summary and a generation timestamp.
\<close>

record run_result =
  articles :: "article_summary list"
  executive_summary :: string
  generated_at :: string

text \<open>
  Modelled from the spec: the stages of sections 4.2 to 4.5, whose code is missing, as
  what the driver sees of them. \<open>fetch_feed\<close> is the Feed Fetcher on one source
  (\<open>None\<close>: fetch or parse failure); \<open>summarize_article\<close> is the Content Extractor
  followed by the per-article Summarizer (\<open>None\<close>: the article is dropped);
  \<open>summarize_executive\<close> is the executive Summarizer with its placeholder on failure;
  \<open>render_report\<close> is the Report Renderer, a pure function of the RunResult.
\<close>

record stages =
  fetch_feed :: "source_config \<Rightarrow> article_stub list option"
  summarize_article :: "article_stub \<Rightarrow> article_summary option"
  summarize_executive :: "article_summary list \<Rightarrow> string"
  render_report :: "run_result \<Rightarrow> string"

text \<open>
  Modelled from the spec: the ConfigurationError cases of sections 4.1 and 7 (missing: the
  script's error handling): no API key, a non-positive \<^verbatim>\<open>--sources=N\<close>, no enabled
  source.
\<close>

datatype config_error = NoApiKey | NonPositiveLimit | NoEnabledSources

text \<open>
  Modelled from the spec: the Feed Registry of section 4.1 (missing: the script's source
  selection): the enabled sources in registry order, limited to the first N when
  \<^verbatim>\<open>--sources=N\<close> is given; a configuration error if N is non-positive or no source
  is enabled.
\<close>

definition select_sources ::
  "int option \<Rightarrow> source_config list \<Rightarrow> config_error + source_config list" where
  "select_sources limit registry =
     (case limit of
        None \<Rightarrow>
          if filter enabled registry = [] then Inl NoEnabledSources
          else Inr (filter enabled registry)
      | Some n \<Rightarrow>
          if n \<le> 0 then Inl NonPositiveLimit
          else if filter enabled registry = [] then Inl NoEnabledSources
          else Inr (take (nat n) (filter enabled registry)))"

text \<open>
  Modelled from the spec: configuration load (sections 6 and 7; missing: the script's start
  of \<^verbatim>\<open>main\<close>): absence of the API key is a configuration error, raised before any
  source is looked at.
\<close>

definition load_configuration ::
  "string option \<Rightarrow> int option \<Rightarrow> source_config list \<Rightarrow> config_error + source_config list" where
  "load_configuration api_key limit registry =
     (if api_key = None then Inl NoApiKey else select_sources limit registry)"

text \<open>
  Modelled from the spec: the driver's loop over one source's stubs (section 2's control
  flow; missing: the script's loop): each stub goes through extraction and summarization
  in feed order, a dropped article is skipped, a summary is appended to the accumulator.
\<close>

fun process_stubs ::
  "stages \<Rightarrow> article_stub list \<Rightarrow> article_summary list \<Rightarrow> article_summary list" where
  "process_stubs st [] acc = acc"
| "process_stubs st (stub # stubs) acc =
     (case summarize_article st stub of
        None \<Rightarrow> process_stubs st stubs acc
      | Some s \<Rightarrow> process_stubs st stubs (acc @ [s]))"

text \<open>
  Modelled from the spec: the driver's loop over the sources (section 4.6; missing: the
  script's loop): sources in registry order; a source whose fetch fails is skipped and the
  run goes on.
\<close>

fun process_sources ::
  "stages \<Rightarrow> source_config list \<Rightarrow> article_summary list \<Rightarrow> article_summary list" where
  "process_sources st [] acc = acc"
| "process_sources st (src # srcs) acc =
     (case fetch_feed st src of
        None \<Rightarrow> process_sources st srcs acc
      | Some stubs \<Rightarrow> process_sources st srcs (process_stubs st stubs acc))"

text \<open>
  Modelled from the spec: what a run leaves behind (section 6; missing: the script's exit
  path): the exit code and the report file, if one was written.
\<close>

record process_result =
  exit_code :: nat
  report_file :: "string option"

text \<open>
  Modelled from the spec: the end of a run (section 4.6; missing: the script's tail): the
  executive summary and the renderer are invoked once each on the accumulated summaries,
  the HTML is written and the process exits 0.
\<close>

definition finish_run :: "stages \<Rightarrow> string \<Rightarrow> article_summary list \<Rightarrow> process_result" where
  "finish_run st now arts =
     \<lparr>exit_code = 0,
      report_file = Some (render_report st
        \<lparr>articles = arts, executive_summary = summarize_executive st arts,
         generated_at = now\<rparr>)\<rparr>"

text \<open>
  Modelled from the spec: the Pipeline Driver of section 4.6 (missing: the script's
  \<^verbatim>\<open>main\<close>), processing strictly sequentially; a configuration error is the one hard
  failure (non-zero exit, no report).
\<close>

definition driver ::
  "stages \<Rightarrow> string \<Rightarrow> string option \<Rightarrow> int option \<Rightarrow> source_config list \<Rightarrow> process_result" where
  "driver st now api_key limit registry =
     (case load_configuration api_key limit registry of
        Inl e \<Rightarrow> \<lparr>exit_code = 1, report_file = None\<rparr>
      | Inr srcs \<Rightarrow> finish_run st now (process_sources st srcs []))"

text \<open>
  Modelled from the spec: section 5's optional parallel execution (missing: the script's
  worker pool). Every article task carries its original index, its position in
  source-registry-then-feed order; the tasks complete in some order and their results are
  appended to the accumulator in that order; the final order is restored by a stable sort
  by original index, and dropped articles are left out.
\<close>

definition all_stubs :: "stages \<Rightarrow> source_config list \<Rightarrow> article_stub list" where
  "all_stubs st srcs =
     concat (map (\<lambda>src. case fetch_feed st src of None \<Rightarrow> [] | Some stubs \<Rightarrow> stubs) srcs)"

text \<open>
  Modelled from the spec: the append-only accumulator of section 5 after all tasks have
  completed (missing: the script's worker pool), in completion order.
\<close>

definition collect_completed ::
  "stages \<Rightarrow> (nat \<times> article_stub) list \<Rightarrow> (nat \<times> article_summary option) list" where
  "collect_completed st completion =
     map (\<lambda>(i, stub). (i, summarize_article st stub)) completion"

text \<open>
  Modelled from the spec: section 5's "stable sort by original index" (missing: the
  script's reordering step); \<open>sort_key\<close> is insertion sort, which is stable.
\<close>

definition restore_order :: "(nat \<times> article_summary option) list \<Rightarrow> article_summary list" where
  "restore_order acc = List.map_filter snd (sort_key fst acc)"

text \<open>
  Modelled from the spec: the article sequence of a parallel run (section 5; missing: the
  script's worker pool), from the order in which the tasks completed.
\<close>

definition parallel_articles ::
  "stages \<Rightarrow> (nat \<times> article_stub) list \<Rightarrow> article_summary list" where
  "parallel_articles st completion = restore_order (collect_completed st completion)"

text \<open>
  Modelled from the spec: the Pipeline Driver of section 4.6 with section 5's parallel
  execution (missing: the script's \<^verbatim>\<open>main\<close>); \<open>completion_order\<close> says in which order
  the indexed tasks of a run complete.
\<close>

definition driver_parallel ::
  "stages \<Rightarrow> string \<Rightarrow> string option \<Rightarrow> int option \<Rightarrow> source_config list
     \<Rightarrow> (article_stub list \<Rightarrow> (nat \<times> article_stub) list) \<Rightarrow> process_result" where
  "driver_parallel st now api_key limit registry completion_order =
     (case load_configuration api_key limit registry of
        Inl e \<Rightarrow> \<lparr>exit_code = 1, report_file = None\<rparr>
      | Inr srcs \<Rightarrow>
          finish_run st now (parallel_articles st (completion_order (all_stubs st srcs))))"

text \<open>
  The vocabulary of the two properties: a source whose fetch fails, and the summaries one
  source contributes (its stubs in feed order, dropped articles left out).
\<close>

definition fetch_failed :: "stages \<Rightarrow> source_config \<Rightarrow> bool" where
  "fetch_failed st src = (fetch_feed st src = None)"

definition source_summaries :: "stages \<Rightarrow> source_config \<Rightarrow> article_summary list" where
  "source_summaries st src =
     (case fetch_feed st src of
        None \<Rightarrow> []
      | Some stubs \<Rightarrow> List.map_filter (summarize_article st) stubs)"

text \<open>
  A small run: source a yields two stubs (the second is dropped by the summarizer),
  source b cannot be fetched, source x is disabled, source c yields one stub.
\<close>

definition demo_source :: "string \<Rightarrow> bool \<Rightarrow> source_config" where
  "demo_source i en =
     \<lparr>source_id = i, display_name = i, description = [], rss_url = i, base_url = i,
      enabled = en, tags = [], max_articles_per_source = 2\<rparr>"

definition demo_stub :: "string \<Rightarrow> string \<Rightarrow> article_stub" where
  "demo_stub i t = \<lparr>stub_title = t, stub_link = t, stub_published = None, stub_source = i\<rparr>"

definition demo_stages :: stages where
  "demo_stages =
     \<lparr>fetch_feed = (\<lambda>src.
          if source_id src = ''a'' then Some [demo_stub ''a'' ''a1'', demo_stub ''a'' ''a2'']
          else if source_id src = ''b'' then None
          else Some [demo_stub (source_id src) ''c1'']),
      summarize_article = (\<lambda>stub.
          if stub_title stub = ''a2'' then None
          else Some \<lparr>article_title = stub_title stub, article_link = stub_link stub,
                     article_source = stub_source stub,
                     article_published = stub_published stub,
                     summary = ''S-'' @ stub_title stub\<rparr>),
      summarize_executive = (\<lambda>arts. ''E'' @ concat (map article_title arts)),
      render_report = (\<lambda>r. generated_at r @ '':'' @ executive_summary r @ '':''
                             @ concat (map summary (articles r)))\<rparr>"

definition demo_registry :: "source_config list" where
  "demo_registry =
     [demo_source ''a'' True, demo_source ''b'' True, demo_source ''x'' False,
      demo_source ''c'' True]"

definition demo_selected :: "source_config list" where
  "demo_selected = [demo_source ''a'' True, demo_source ''b'' True, demo_source ''c'' True]"
section \<open>The configuration cell: what it does on every environment\<close>

lemmas cell_defs =
  env_setup_def assign_def environ_get_def check_keys_def bind_lm_def configure_def fresh_def

text \<open>
  The check on line 47 fires as soon as one of the four variables is unset: in a fresh
  kernel the cell raises the \<^verbatim>\<open>ValueError\<close> exactly when some supported key is missing.
\<close>

lemma env_setup_ValueError_iff:
  "exn_of (env_setup environ fresh) =
     Some (ValueError ''No supported API key found in environment variables.'')
   \<longleftrightarrow> (\<exists>name \<in> set supported_keys. environ name = None)"
  by (cases "environ ''OPENAI_API_KEY''"; cases "environ ''ANTHROPIC_API_KEY''";
      cases "environ ''PERPLEXITY_API_KEY''"; cases "environ ''GROQ_API_KEY''";
      simp add: cell_defs supported_keys_def)

text \<open>
  Claim C1 says that the configuration step fails exactly when none of the supported
  API-key variables is set, and succeeds whenever at least one is present. In a fresh
  kernel with only \<^verbatim>\<open>OPENAI_API_KEY\<close> set (the one key the rest of the cell
  needs), the cell raises the \<^verbatim>\<open>ValueError\<close> whose message says that no
  supported key was found, although one was; no \<^verbatim>\<open>dspy.LM\<close> has been
  constructed and nothing has been configured at that point.
\<close>

theorem env_setup_openai_key_only_raises:
  "exn_of (env_setup [''OPENAI_API_KEY'' \<mapsto> ''sk-test''] fresh) =
     Some (ValueError ''No supported API key found in environment variables.'')
   \<and> globals (kernel_of (env_setup [''OPENAI_API_KEY'' \<mapsto> ''sk-test''] fresh)) ''openai_lm'' = None
   \<and> settings_lm (kernel_of (env_setup [''OPENAI_API_KEY'' \<mapsto> ''sk-test''] fresh)) = None"
  by (simp add: cell_defs)

text \<open>
  The two ends of the range, in a fresh kernel: with no key set the cell raises the
  \<^verbatim>\<open>ValueError\<close> before any model is constructed or configured, and with all four
  keys set to non-empty values it completes with the OpenAI model configured.
\<close>

lemma env_setup_no_key:
  assumes "\<forall>name \<in> set supported_keys. environ name = None"
  shows "exn_of (env_setup environ fresh) =
           Some (ValueError ''No supported API key found in environment variables.'')"
    and "globals (kernel_of (env_setup environ fresh)) ''openai_lm'' = None"
    and "globals (kernel_of (env_setup environ fresh)) ''anthropic_lm'' = None"
    and "globals (kernel_of (env_setup environ fresh)) ''perplexity_lm'' = None"
    and "globals (kernel_of (env_setup environ fresh)) ''groq_lm'' = None"
    and "settings_lm (kernel_of (env_setup environ fresh)) = None"
  using assms by (simp_all add: cell_defs supported_keys_def)

lemma env_setup_all_keys:
  assumes "\<forall>name \<in> set supported_keys. \<exists>v. environ name = Some v \<and> v \<noteq> []"
  shows "exn_of (env_setup environ fresh) = None"
    and "settings_lm (kernel_of (env_setup environ fresh))
           = Some (LM ''openai/gpt-4o-mini'' (environ_get environ ''OPENAI_API_KEY''))"
proof -
  from assms obtain ko ka kp kg where
    "environ ''OPENAI_API_KEY'' = Some ko" "ko \<noteq> []"
    "environ ''ANTHROPIC_API_KEY'' = Some ka" "ka \<noteq> []"
    "environ ''PERPLEXITY_API_KEY'' = Some kp" "kp \<noteq> []"
    "environ ''GROQ_API_KEY'' = Some kg" "kg \<noteq> []"
    by (auto simp add: supported_keys_def)
  then show "exn_of (env_setup environ fresh) = None"
    and "settings_lm (kernel_of (env_setup environ fresh))
           = Some (LM ''openai/gpt-4o-mini'' (environ_get environ ''OPENAI_API_KEY''))"
    by (simp_all add: cell_defs)
qed

lemma env_setup_completes_keys:
  assumes "exn_of (env_setup environ fresh) = None"
  obtains ko ka kp kg where
    "environ ''OPENAI_API_KEY'' = Some ko" and "environ ''ANTHROPIC_API_KEY'' = Some ka"
    and "environ ''PERPLEXITY_API_KEY'' = Some kp" and "environ ''GROQ_API_KEY'' = Some kg"
    and "ko \<noteq> []"
proof -
  obtain ko where ko: "environ ''OPENAI_API_KEY'' = Some ko"
    using assms by (cases "environ ''OPENAI_API_KEY''") (simp_all add: cell_defs)
  obtain ka where ka: "environ ''ANTHROPIC_API_KEY'' = Some ka"
    using assms ko by (cases "environ ''ANTHROPIC_API_KEY''") (simp_all add: cell_defs)
  obtain kp where kp: "environ ''PERPLEXITY_API_KEY'' = Some kp"
    using assms ko ka by (cases "environ ''PERPLEXITY_API_KEY''") (simp_all add: cell_defs)
  obtain kg where kg: "environ ''GROQ_API_KEY'' = Some kg"
    using assms ko ka kp by (cases "environ ''GROQ_API_KEY''") (simp_all add: cell_defs)
  have "ko \<noteq> []"
    using assms ko ka kp kg
    by (cases "ko = []"; cases "ka = []"; cases "kp = []"; cases "kg = []")
       (simp_all add: cell_defs)
  with ko ka kp kg show ?thesis by (rule that)
qed

text \<open>
  Claim C10, as stated, says that whenever the cell completes, each of the four provider
  LM names is bound. A variable that is set to the empty string passes the
  \<^verbatim>\<open>None\<close> check and fails the truth test of its \<^verbatim>\<open>if\<close>: with
  \<^verbatim>\<open>ANTHROPIC_API_KEY\<close> empty and the other three keys set, the cell completes and
  \<^verbatim>\<open>anthropic_lm\<close> is not bound.
\<close>

theorem env_setup_empty_anthropic_key_counterexample:
  "exn_of (env_setup [''OPENAI_API_KEY'' \<mapsto> ''sk-o'', ''ANTHROPIC_API_KEY'' \<mapsto> [],
                      ''PERPLEXITY_API_KEY'' \<mapsto> ''sk-p'', ''GROQ_API_KEY'' \<mapsto> ''sk-g''] fresh) = None
   \<and> globals (kernel_of (env_setup [''OPENAI_API_KEY'' \<mapsto> ''sk-o'', ''ANTHROPIC_API_KEY'' \<mapsto> [],
                      ''PERPLEXITY_API_KEY'' \<mapsto> ''sk-p'', ''GROQ_API_KEY'' \<mapsto> ''sk-g''] fresh))
        ''anthropic_lm'' = None"
  by (simp add: cell_defs)

text \<open>
  The same happens to the last statement when the empty variable is \<^verbatim>\<open>OPENAI_API_KEY\<close>:
  the check passes, \<^verbatim>\<open>openai_lm\<close> is never bound and
  \<^verbatim>\<open>dspy.configure(lm=openai_lm)\<close> raises \<^verbatim>\<open>NameError\<close>.
\<close>

lemma env_setup_empty_openai_key_NameError:
  "exn_of (env_setup [''OPENAI_API_KEY'' \<mapsto> [], ''ANTHROPIC_API_KEY'' \<mapsto> ''sk-a'',
                      ''PERPLEXITY_API_KEY'' \<mapsto> ''sk-p'', ''GROQ_API_KEY'' \<mapsto> ''sk-g''] fresh)
   = Some (NameError ''openai_lm'')"
  by (simp add: cell_defs)

text \<open>
  Claim C10, amended: whenever the configuration cell completes without raising (in a
  fresh kernel), all four key variables hold strings (none is \<^verbatim>\<open>None\<close>) and
  \<^verbatim>\<open>openai_key\<close> is non-empty, so \<^verbatim>\<open>openai_lm\<close> is bound and is the
  globally configured model; each of the other three LM names is bound exactly when its
  key is a non-empty string.
\<close>

theorem env_setup_completed:
  assumes "env_setup environ fresh = Completed k"
  shows "\<exists>ko ka kp kg.
     environ ''OPENAI_API_KEY'' = Some ko \<and> environ ''ANTHROPIC_API_KEY'' = Some ka \<and>
     environ ''PERPLEXITY_API_KEY'' = Some kp \<and> environ ''GROQ_API_KEY'' = Some kg \<and>
     globals k ''openai_key'' = Some (PyStr ko) \<and> globals k ''anthropic_key'' = Some (PyStr ka) \<and>
     globals k ''perplexity_key'' = Some (PyStr kp) \<and> globals k ''groq_key'' = Some (PyStr kg) \<and>
     ko \<noteq> [] \<and>
     globals k ''openai_lm'' = Some (LM ''openai/gpt-4o-mini'' (PyStr ko)) \<and>
     settings_lm k = Some (LM ''openai/gpt-4o-mini'' (PyStr ko)) \<and>
     globals k ''anthropic_lm'' =
       (if ka = [] then None else Some (LM ''anthropic/claude-opus-4-20250514'' (PyStr ka))) \<and>
     globals k ''perplexity_lm'' =
       (if kp = [] then None else Some (LM ''perplexity/sonar'' (PyStr kp))) \<and>
     globals k ''groq_lm'' =
       (if kg = [] then None else Some (LM ''groq/llama-3.1-8b-instant'' (PyStr kg)))"
proof -
  from assms have "exn_of (env_setup environ fresh) = None" by simp
  then obtain ko ka kp kg where
    "environ ''OPENAI_API_KEY'' = Some ko" and "environ ''ANTHROPIC_API_KEY'' = Some ka"
    and "environ ''PERPLEXITY_API_KEY'' = Some kp" and "environ ''GROQ_API_KEY'' = Some kg"
    and "ko \<noteq> []"
    by (rule env_setup_completes_keys)
  with assms show ?thesis
    by (cases "ka = []"; cases "kp = []"; cases "kg = []") (auto simp add: cell_defs)
qed

theorem env_setup_completed_witness:
  "env_setup [''OPENAI_API_KEY'' \<mapsto> ''sk-o'', ''ANTHROPIC_API_KEY'' \<mapsto> ''sk-a'',
              ''PERPLEXITY_API_KEY'' \<mapsto> ''sk-p'', ''GROQ_API_KEY'' \<mapsto> []] fresh
     = Completed (kernel_of (env_setup [''OPENAI_API_KEY'' \<mapsto> ''sk-o'', ''ANTHROPIC_API_KEY'' \<mapsto> ''sk-a'',
              ''PERPLEXITY_API_KEY'' \<mapsto> ''sk-p'', ''GROQ_API_KEY'' \<mapsto> []] fresh))
   \<and> settings_lm (kernel_of (env_setup [''OPENAI_API_KEY'' \<mapsto> ''sk-o'', ''ANTHROPIC_API_KEY'' \<mapsto> ''sk-a'',
              ''PERPLEXITY_API_KEY'' \<mapsto> ''sk-p'', ''GROQ_API_KEY'' \<mapsto> []] fresh))
       = Some (LM ''openai/gpt-4o-mini'' (PyStr ''sk-o''))
   \<and> globals (kernel_of (env_setup [''OPENAI_API_KEY'' \<mapsto> ''sk-o'', ''ANTHROPIC_API_KEY'' \<mapsto> ''sk-a'',
              ''PERPLEXITY_API_KEY'' \<mapsto> ''sk-p'', ''GROQ_API_KEY'' \<mapsto> []] fresh)) ''groq_lm'' = None"
proof -
  let ?E = "[''OPENAI_API_KEY'' \<mapsto> ''sk-o'', ''ANTHROPIC_API_KEY'' \<mapsto> ''sk-a'',
             ''PERPLEXITY_API_KEY'' \<mapsto> ''sk-p'', ''GROQ_API_KEY'' \<mapsto> []]"
  have c: "env_setup ?E fresh = Completed (kernel_of (env_setup ?E fresh))"
    by (simp add: cell_defs)
  from env_setup_completed [OF c] obtain ko ka kp kg where
    "?E ''OPENAI_API_KEY'' = Some ko" and "?E ''ANTHROPIC_API_KEY'' = Some ka"
    and "?E ''PERPLEXITY_API_KEY'' = Some kp" and "?E ''GROQ_API_KEY'' = Some kg"
    and "settings_lm (kernel_of (env_setup ?E fresh)) = Some (LM ''openai/gpt-4o-mini'' (PyStr ko))"
    and "globals (kernel_of (env_setup ?E fresh)) ''groq_lm'' =
           (if kg = [] then None else Some (LM ''groq/llama-3.1-8b-instant'' (PyStr kg)))"
    by blast
  then have "settings_lm (kernel_of (env_setup ?E fresh)) = Some (LM ''openai/gpt-4o-mini'' (PyStr ''sk-o''))"
    and "globals (kernel_of (env_setup ?E fresh)) ''groq_lm'' = None"
    by simp_all
  with c show ?thesis by blast
qed


section \<open>DraftArticle.forward: one drafted section per outline entry\<close>

lemma answer_calls_length:
  "answer_calls ds calls w = (Inr drafts, w') \<Longrightarrow> length drafts = length calls"
  by (induction calls arbitrary: w drafts)
     (auto split: prod.splits sum.splits)

lemma forward_loop_answer_calls:
  "answer_calls ds (map (\<lambda>(heading, subheadings).
            (topic, ''## '' @ heading, map ((@) ''### '') subheadings)) items) w = (Inr drafts, w')
   \<Longrightarrow> forward_loop ds topic items acc w = (Inr (acc @ map content drafts), w')"
  by (induction items arbitrary: acc w drafts)
     (auto split: prod.splits sum.splits)

text \<open>
  Claim C9: for every outline returned by \<^verbatim>\<open>build_outline\<close>, when the calls to
  \<^verbatim>\<open>draft_section\<close> return, \<^verbatim>\<open>forward\<close> returns a Prediction whose title is
  \<^verbatim>\<open>outline.title\<close> and whose sections are the contents of the drafted sections, one
  per entry of \<^verbatim>\<open>outline.section_subheadings\<close> in the mapping's iteration order; the
  calls are exactly those of \<open>expected_calls\<close>: topic \<^verbatim>\<open>outline.title\<close>, the heading
  prefixed with \<^verbatim>\<open>"## "\<close> and each subheading prefixed with \<^verbatim>\<open>"### "\<close>.
\<close>

theorem forward_returns_prediction:
  assumes "build_outline topic w = (Inr outline, w1)"
    and "answer_calls draft_section (expected_calls outline) w1 = (Inr drafts, w2)"
  shows "forward build_outline draft_section topic w =
           (Inr (Prediction (title outline) (map content drafts)), w2)
         \<and> length drafts = length (section_subheadings outline)"
proof -
  from assms(2) have "forward_loop draft_section (title outline) (section_subheadings outline) [] w1
      = (Inr ([] @ map content drafts), w2)"
    unfolding expected_calls_def by (rule forward_loop_answer_calls)
  moreover from answer_calls_length [OF assms(2)]
  have "length drafts = length (section_subheadings outline)"
    by (simp add: expected_calls_def)
  ultimately show ?thesis using assms(1) by (simp add: forward_def)
qed

text \<open>
  On the recording framework: the outline has two entries, \<^verbatim>\<open>forward\<close> returns two
  sections, and the record shows the two calls with their prefixes, in order.
\<close>

theorem forward_returns_prediction_witness:
  "forward recording_build_outline recording_draft_section ''topic'' [] =
     (Inr (Prediction ''Quantum'' [''## Intro'', ''## Outlook'']),
      [(''Quantum'', ''## Intro'', [''### Basics'']),
       (''Quantum'', ''## Outlook'', [''### Short-term'', ''### Long-term''])])"
proof -
  have b: "recording_build_outline ''topic'' [] = (Inr recorded_outline, [])"
    by (simp add: recording_build_outline_def)
  have a: "answer_calls recording_draft_section (expected_calls recorded_outline) [] =
      (Inr [\<lparr>section_reasoning = [], content = ''## Intro''\<rparr>,
            \<lparr>section_reasoning = [], content = ''## Outlook''\<rparr>],
       [(''Quantum'', ''## Intro'', [''### Basics'']),
        (''Quantum'', ''## Outlook'', [''### Short-term'', ''### Long-term''])])"
    by (simp add: expected_calls_def recorded_outline_def recording_draft_section_def)
  from forward_returns_prediction
         [of recording_build_outline _ _ recorded_outline _ recording_draft_section, OF b a]
  show ?thesis
    by (simp add: recorded_outline_def)
qed

text \<open>An exception of the first failing call leaves \<^verbatim>\<open>forward\<close> as it was raised.\<close>

lemma forward_build_outline_raises:
  "build_outline topic w = (Inl e, w1) \<Longrightarrow> forward build_outline draft_section topic w = (Inl e, w1)"
  by (simp add: forward_def)


section \<open>The driver: partial failure and the order of the report\<close>

lemma process_stubs_eq:
  "process_stubs st stubs acc = acc @ List.map_filter (summarize_article st) stubs"
  by (induction stubs arbitrary: acc) (auto split: option.splits)

lemma process_sources_eq:
  "process_sources st srcs acc = acc @ concat (map (source_summaries st) srcs)"
  by (induction srcs arbitrary: acc)
     (auto simp add: source_summaries_def process_stubs_eq split: option.splits)

lemma failed_source_no_summaries:
  "fetch_failed st src \<Longrightarrow> source_summaries st src = []"
  by (simp add: fetch_failed_def source_summaries_def)

lemma concat_skip_failed:
  "concat (map (source_summaries st) srcs) =
   concat (map (source_summaries st) (filter (\<lambda>s. \<not> fetch_failed st s) srcs))"
  by (induction srcs) (auto simp add: failed_source_no_summaries)

text \<open>
  Claim C2: whatever subset of the configured sources the Feed Fetcher fails on, the run
  completes; the report is rendered from the summaries of every remaining source, in
  order; the process exits 0 then, and exits non-zero exactly on a configuration-load
  failure.
\<close>

theorem driver_partial_failure:
  "(exit_code (driver st now api_key limit registry) \<noteq> 0
      \<longleftrightarrow> (\<exists>e. load_configuration api_key limit registry = Inl e))
   \<and> (\<forall>srcs. load_configuration api_key limit registry = Inr srcs \<longrightarrow>
         driver st now api_key limit registry =
           finish_run st now
             (concat (map (source_summaries st) (filter (\<lambda>s. \<not> fetch_failed st s) srcs)))
         \<and> exit_code (driver st now api_key limit registry) = 0)"
proof -
  have "process_sources st srcs [] =
        concat (map (source_summaries st) (filter (\<lambda>s. \<not> fetch_failed st s) srcs))" for srcs
    using concat_skip_failed [of st srcs] by (simp add: process_sources_eq)
  then show ?thesis
    by (cases "load_configuration api_key limit registry")
       (simp_all add: driver_def finish_run_def)
qed

text \<open>
  On the small run: source b fails, and the report holds the summaries of a and c.
\<close>

theorem driver_partial_failure_witness:
  "fetch_failed demo_stages (demo_source ''b'' True)
   \<and> load_configuration (Some ''key'') None demo_registry = Inr demo_selected
   \<and> driver demo_stages ''t'' (Some ''key'') None demo_registry
       = \<lparr>exit_code = 0, report_file = Some ''t:Ea1c1:S-a1S-c1''\<rparr>"
proof -
  have f: "fetch_failed demo_stages (demo_source ''b'' True)"
    by (simp add: fetch_failed_def demo_stages_def demo_source_def)
  have l: "load_configuration (Some ''key'') None demo_registry = Inr demo_selected"
    by (simp add: load_configuration_def select_sources_def demo_registry_def
          demo_selected_def demo_source_def)
  from driver_partial_failure [of demo_stages "''t''" "Some ''key''" None demo_registry] l
  have "driver demo_stages ''t'' (Some ''key'') None demo_registry =
        finish_run demo_stages ''t''
          (concat (map (source_summaries demo_stages)
             (filter (\<lambda>s. \<not> fetch_failed demo_stages s) demo_selected)))"
    by blast
  also have "\<dots> = \<lparr>exit_code = 0, report_file = Some ''t:Ea1c1:S-a1S-c1''\<rparr>"
    by (simp add: finish_run_def source_summaries_def fetch_failed_def demo_stages_def
          demo_selected_def demo_source_def demo_stub_def)
  finally show ?thesis using f l by blast
qed

lemma map_filter_concat:
  "List.map_filter f (concat xss) = concat (map (List.map_filter f) xss)"
  by (induction xss) (simp_all add: List.map_filter_def)

lemma map_filter_all_stubs:
  "List.map_filter (summarize_article st) (all_stubs st srcs) =
   concat (map (source_summaries st) srcs)"
proof -
  have "List.map_filter (summarize_article st)
          (case fetch_feed st src of None \<Rightarrow> [] | Some stubs \<Rightarrow> stubs)
        = source_summaries st src" for src
    by (simp add: source_summaries_def split: option.splits)
  then show ?thesis
    by (simp add: all_stubs_def map_filter_concat comp_def)
qed

lemma fst_tagged: "fst \<circ> (\<lambda>(i, stub). (i, g stub)) = fst"
  by (simp add: fun_eq_iff)

text \<open>
  Sorting by original index undoes any completion order: the indices of the tasks are
  distinct, so the sorted list is determined by its elements.
\<close>

lemma sort_completed:
  assumes "mset completion = mset (enumerate 0 stubs)"
  shows "sort_key fst (map (\<lambda>(i, stub). (i, g stub)) completion)
         = map (\<lambda>(i, stub). (i, g stub)) (enumerate 0 stubs)"
proof (rule sort_key_inj_key_eq)
  let ?f = "\<lambda>(i, stub). (i :: nat, g stub)"
  from assms show "mset (map ?f completion) = mset (map ?f (enumerate 0 stubs))"
    by (simp only: mset_map)
  from assms have "mset (map fst completion) = mset (map fst (enumerate 0 stubs))"
    by (simp only: mset_map)
  then have "distinct (map fst completion) = distinct (map fst (enumerate 0 stubs))"
    by (rule mset_eq_imp_distinct_iff)
  then have "distinct (map fst (map ?f completion))"
    by (simp add: fst_tagged)
  then show "inj_on fst (set (map ?f completion))"
    by (simp only: distinct_map)
  show "sorted (map fst (map ?f (enumerate 0 stubs)))"
    by (simp add: fst_tagged)
qed

lemma map_filter_snd_enumerate:
  "List.map_filter snd (map (\<lambda>(i, stub). (i, g stub)) (enumerate n stubs))
     = List.map_filter g stubs"
  by (induction stubs arbitrary: n) (auto split: option.splits)

lemma parallel_articles_eq:
  assumes "mset completion = mset (enumerate 0 (all_stubs st srcs))"
  shows "parallel_articles st completion = concat (map (source_summaries st) srcs)"
  using sort_completed [OF assms, of "summarize_article st"]
  by (simp add: parallel_articles_def restore_order_def collect_completed_def
        map_filter_snd_enumerate map_filter_all_stubs)

text \<open>
  Claim C4: in whatever order the (possibly parallel) article tasks of a run complete
  (any rearrangement of the indexed tasks), the article summaries of the final RunResult
  are in the order the sources appear in the registry, with feed order within each
  source; the parallel driver's result, rendered report included, is the sequential
  driver's.
\<close>

theorem parallel_order_restored:
  assumes "\<forall>stubs. mset (completion_order stubs) = mset (enumerate 0 stubs)"
  shows "parallel_articles st (completion_order (all_stubs st srcs))
           = concat (map (source_summaries st) srcs)
         \<and> driver_parallel st now api_key limit registry completion_order
           = driver st now api_key limit registry"
proof -
  have "parallel_articles st (completion_order (all_stubs st srcs')) = process_sources st srcs' []"
    for srcs'
    using assms by (simp add: parallel_articles_eq process_sources_eq)
  then show ?thesis
    using assms
    by (simp add: parallel_articles_eq driver_parallel_def driver_def split: sum.splits)
qed

text \<open>
  On the small run, with the tasks completing in the reverse of their original order.
\<close>

theorem parallel_order_restored_witness:
  "map article_title
     (parallel_articles demo_stages (rev (enumerate 0 (all_stubs demo_stages demo_selected))))
     = [''a1'', ''c1'']
   \<and> map article_source
     (parallel_articles demo_stages (rev (enumerate 0 (all_stubs demo_stages demo_selected))))
     = [''a'', ''c'']
   \<and> driver_parallel demo_stages ''t'' (Some ''key'') None demo_registry
        (\<lambda>stubs. rev (enumerate 0 stubs))
     = driver demo_stages ''t'' (Some ''key'') None demo_registry"
proof -
  have p: "\<forall>stubs :: article_stub list. mset (rev (enumerate 0 stubs)) = mset (enumerate 0 stubs)"
    by simp
  from parallel_order_restored
         [of "\<lambda>stubs. rev (enumerate 0 stubs)", OF p, of demo_stages demo_selected]
  have a: "parallel_articles demo_stages (rev (enumerate 0 (all_stubs demo_stages demo_selected)))
     = concat (map (source_summaries demo_stages) demo_selected)"
    and b: "driver_parallel demo_stages ''t'' (Some ''key'') None demo_registry
              (\<lambda>stubs. rev (enumerate 0 stubs))
            = driver demo_stages ''t'' (Some ''key'') None demo_registry"
    by blast+
  have "map article_title (concat (map (source_summaries demo_stages) demo_selected))
          = [''a1'', ''c1'']"
    and "map article_source (concat (map (source_summaries demo_stages) demo_selected))
          = [''a'', ''c'']"
    by (simp_all add: source_summaries_def demo_stages_def demo_selected_def
          demo_source_def demo_stub_def)
  with a b show ?thesis by simp
qed

end
